theory Spec2Isabelle
  imports Main "HOL-Library.Product_Lexorder"
begin

section \<open>Analytics views of the issue tracker (apiserver/plane/api/views/analytic.py)\<close>

text \<open>
  The module is a set of request handlers over the ORM. The embedding keeps each handler
  as one definition that follows the handler's statements in order. The tables of the
  database are lists of rows, a queryset is the list of rows it yields (a row may occur
  several times: a filter across a to-many relation is a join), and the collaborators
  the handlers call (error tracker, task queue, standard output, database) are fields of
  one \<open>world\<close> record that every handler receives and returns.
\<close>

subsection \<open>Python values and request parameters\<close>

datatype pyval =
    PyNone
  | PyBool bool
  | PyInt int
  | PyStr string
  | PyList "pyval list"
  | PyDict "(string \<times> pyval) list"

text \<open>Python's \<^verbatim>\<open>not v\<close>.\<close>

fun falsy :: "pyval \<Rightarrow> bool" where
  "falsy PyNone = True"
| "falsy (PyBool b) = (b = False)"
| "falsy (PyInt n) = (n = 0)"
| "falsy (PyStr s) = (s = [])"
| "falsy (PyList xs) = (xs = [])"
| "falsy (PyDict kvs) = (kvs = [])"

text \<open>
  \<^verbatim>\<open>request.GET\<close> is a QueryDict: every key holds the list of the values the query
  string gives it. \<^verbatim>\<open>get\<close> returns the last value, or the default when the key is
  absent or its list is empty; \<^verbatim>\<open>getlist\<close> returns the whole list.
\<close>

type_synonym QueryDict = "string \<rightharpoonup> string list"

definition QueryDict_get :: "QueryDict \<Rightarrow> string \<Rightarrow> pyval \<Rightarrow> pyval" where
  "QueryDict_get q key dflt =
     (case q key of
        None \<Rightarrow> dflt
      | Some vs \<Rightarrow> (if vs = [] then dflt else PyStr (last vs)))"

definition getlist :: "QueryDict \<Rightarrow> string \<Rightarrow> string list" where
  "getlist q key = (case q key of None \<Rightarrow> [] | Some vs \<Rightarrow> vs)"

text \<open>\<^verbatim>\<open>request.data\<close> of a POST, and any other dict: \<^verbatim>\<open>d.get(key, default)\<close>.\<close>

definition dict_get :: "(string \<rightharpoonup> pyval) \<Rightarrow> string \<Rightarrow> pyval \<Rightarrow> pyval" where
  "dict_get d key dflt = (case d key of None \<Rightarrow> dflt | Some v \<Rightarrow> v)"

record request =
  GET :: QueryDict
  data :: "string \<rightharpoonup> pyval"
  user_email :: string

subsection \<open>The tables\<close>

record datetime =
  year :: int
  month :: nat
  day :: nat
  hour :: nat
  minute :: nat
  second :: nat
  microsecond :: nat

record user =
  email :: string

record workspace =
  workspace_id :: string
  workspace_slug :: string

text \<open>
  An issue row. \<open>issue_cycle\<close> and \<open>issue_module\<close> hold the cycle id and the module id
  of every link row that points to the issue; \<open>state_group\<close> is the group of the
  issue's state, \<open>None\<close> when the issue has no state.
\<close>

record issue =
  issue_id :: string
  issue_workspace_id :: string
  project_id :: string
  issue_cycle :: "string list"
  issue_module :: "string list"
  state_group :: "string option"
  completed_at :: "datetime option"
  created_by :: "user option"

record state =
  state_workspace_id :: string
  state_project_id :: string
  state_name :: string
  state_group_name :: string
  state_color :: string

record label =
  label_workspace_id :: string
  label_project_id :: string
  label_name :: string
  label_color :: string

record analytic_view =
  pk :: string
  view_workspace_id :: string
  query :: "(string \<times> pyval) list"
  query_dict :: "string \<rightharpoonup> pyval"

record database =
  Issue_objects :: "issue list"
  AnalyticView_objects :: "analytic_view list"
  Workspace_objects :: "workspace list"
  State_objects :: "state list"
  Label_objects :: "label list"

subsection \<open>Exceptions, collaborators and the world\<close>

text \<open>
  \<open>DoesNotExist m\<close> and \<open>MultipleObjectsReturned m\<close> are the exception classes of
  the model class named \<open>m\<close>; every other exception is \<open>Exception msg\<close>.
\<close>

datatype exn =
    DoesNotExist string
  | MultipleObjectsReturned string
  | Exception string

record job =
  job_email :: string
  job_data :: "string \<rightharpoonup> pyval"
  job_slug :: string

text \<open>
  \<open>db_fault\<close> is the exception that evaluating a query raises while the database is
  failing, \<open>broker_fault\<close> the one that enqueueing a task raises while the broker is
  failing. \<open>issue_reads\<close> counts the evaluated queries over the issue table,
  \<open>task_queue\<close> holds the enqueued export jobs, \<open>sentry\<close> the exceptions given to
  \<^verbatim>\<open>capture_exception\<close>, \<open>stdout\<close> the exceptions printed.
\<close>

record world =
  db :: database
  db_fault :: "exn option"
  broker_fault :: "exn option"
  issue_reads :: nat
  task_queue :: "job list"
  sentry :: "exn list"
  stdout :: "exn list"

definition capture_exception :: "exn \<Rightarrow> world \<Rightarrow> world" where
  "capture_exception e w = w\<lparr>sentry := sentry w @ [e]\<rparr>"

definition print :: "exn \<Rightarrow> world \<Rightarrow> world" where
  "print e w = w\<lparr>stdout := stdout w @ [e]\<rparr>"

text \<open>\<^verbatim>\<open>analytic_export_task.delay(email=..., data=..., slug=...)\<close>.\<close>

definition delay :: "job \<Rightarrow> world \<Rightarrow> (exn + unit) \<times> world" where
  "delay j w =
     (case broker_fault w of
        Some e \<Rightarrow> (Inl e, w)
      | None \<Rightarrow> (Inr (), w\<lparr>task_queue := task_queue w @ [j]\<rparr>))"

subsection \<open>The ORM calls the handlers make\<close>

text \<open>The slug of the workspace a row belongs to (\<^verbatim>\<open>workspace__slug\<close>).\<close>

definition slug_of :: "database \<Rightarrow> string \<Rightarrow> string option" where
  "slug_of d wid = map_of (map (\<lambda>ws. (workspace_id ws, workspace_slug ws)) (Workspace_objects d)) wid"

text \<open>\<^verbatim>\<open>Issue.objects.filter(workspace__slug=slug)\<close>\<close>

definition filter_workspace_slug :: "database \<Rightarrow> string \<Rightarrow> issue list" where
  "filter_workspace_slug d slug =
     filter (\<lambda>i. slug_of d (issue_workspace_id i) = Some slug) (Issue_objects d)"

text \<open>\<^verbatim>\<open>queryset.filter(project_id__in=project_ids)\<close>\<close>

definition filter_project_id_in :: "string list \<Rightarrow> issue list \<Rightarrow> issue list" where
  "filter_project_id_in project_ids queryset =
     filter (\<lambda>i. project_id i \<in> set project_ids) queryset"

text \<open>
  \<^verbatim>\<open>queryset.filter(issue_cycle__cycle_id__in=cycle_ids)\<close>: a join with the link
  rows, one result row for every link of the issue whose cycle is in the list.
\<close>

definition filter_issue_cycle_in :: "string list \<Rightarrow> issue list \<Rightarrow> issue list" where
  "filter_issue_cycle_in cycle_ids queryset =
     concat (map (\<lambda>i. map (\<lambda>c. i) (filter (\<lambda>c. c \<in> set cycle_ids) (issue_cycle i))) queryset)"

text \<open>\<^verbatim>\<open>queryset.filter(issue_module__module_id__in=module_ids)\<close>, the same join.\<close>

definition filter_issue_module_in :: "string list \<Rightarrow> issue list \<Rightarrow> issue list" where
  "filter_issue_module_in module_ids queryset =
     concat (map (\<lambda>i. map (\<lambda>m. i) (filter (\<lambda>m. m \<in> set module_ids) (issue_module i))) queryset)"

text \<open>
  The restriction of the issues by the request, the same statements in
  \<^verbatim>\<open>AnalyticsEndpoint.get\<close> and in \<^verbatim>\<open>DefaultAnalyticsEndpoint.get\<close>: the
  issues of the path workspace, then one further filter for every id list that is not
  empty.
\<close>

definition issue_queryset ::
  "database \<Rightarrow> string \<Rightarrow> string list \<Rightarrow> string list \<Rightarrow> string list \<Rightarrow> issue list" where
  "issue_queryset d slug project_ids cycle_ids module_ids =
     (let queryset = filter_workspace_slug d slug;
          queryset = (if project_ids \<noteq> [] then filter_project_id_in project_ids queryset
                      else queryset);
          queryset = (if cycle_ids \<noteq> [] then filter_issue_cycle_in cycle_ids queryset
                      else queryset);
          queryset = (if module_ids \<noteq> [] then filter_issue_module_in module_ids queryset
                      else queryset)
      in queryset)"

text \<open>\<^verbatim>\<open>queryset.count()\<close> evaluates the query.\<close>

definition count :: "issue list \<Rightarrow> world \<Rightarrow> (exn + nat) \<times> world" where
  "count queryset w =
     (case db_fault w of
        Some e \<Rightarrow> (Inl e, w)
      | None \<Rightarrow> (Inr (length queryset), w\<lparr>issue_reads := issue_reads w + 1\<rparr>))"

text \<open>
  The call of \<^verbatim>\<open>build_graph_plot\<close> (plane.utils.analytics_plot, outside this module):
  the handlers receive it as the parameter \<open>plot\<close>, which returns the distribution or
  raises. It evaluates the queryset it is given.
\<close>

definition call_plot ::
  "(issue list \<Rightarrow> pyval \<Rightarrow> pyval \<Rightarrow> pyval \<Rightarrow> exn + 'd) \<Rightarrow>
   issue list \<Rightarrow> pyval \<Rightarrow> pyval \<Rightarrow> pyval \<Rightarrow> world \<Rightarrow> (exn + 'd) \<times> world" where
  "call_plot plot queryset x_axis y_axis segment w =
     (plot queryset x_axis y_axis segment, w\<lparr>issue_reads := issue_reads w + 1\<rparr>)"

text \<open>\<^verbatim>\<open>State.objects.filter(...).values(key, "color")\<close> and the same over labels.\<close>

definition state_values :: "string \<Rightarrow> state list \<Rightarrow> (string \<times> string) list list" where
  "state_values key rows =
     map (\<lambda>s. [(key, if key = ''name'' then state_name s else state_group_name s),
                (''color'', state_color s)]) rows"

definition label_values :: "label list \<Rightarrow> (string \<times> string) list list" where
  "label_values rows = map (\<lambda>l. [(''name'', label_name l), (''color'', label_color l)]) rows"

text \<open>\<^verbatim>\<open>AnalyticView.objects.get(pk=analytic_id, workspace__slug=slug)\<close>\<close>

definition AnalyticView_objects_get :: "string \<Rightarrow> string \<Rightarrow> world \<Rightarrow> exn + analytic_view" where
  "AnalyticView_objects_get analytic_id slug w =
     (case db_fault w of
        Some e \<Rightarrow> Inl e
      | None \<Rightarrow>
         (case filter (\<lambda>v. pk v = analytic_id \<and> slug_of (db w) (view_workspace_id v) = Some slug)
                 (AnalyticView_objects (db w)) of
            [] \<Rightarrow> Inl (DoesNotExist ''AnalyticView'')
          | [v] \<Rightarrow> Inr v
          | _ \<Rightarrow> Inl (MultipleObjectsReturned ''AnalyticView'')))"

text \<open>\<^verbatim>\<open>Workspace.objects.get(slug=slug)\<close>\<close>

definition Workspace_objects_get :: "string \<Rightarrow> world \<Rightarrow> exn + workspace" where
  "Workspace_objects_get slug w =
     (case db_fault w of
        Some e \<Rightarrow> Inl e
      | None \<Rightarrow>
         (case filter (\<lambda>ws. workspace_slug ws = slug) (Workspace_objects (db w)) of
            [] \<Rightarrow> Inl (DoesNotExist ''Workspace'')
          | [ws] \<Rightarrow> Inr ws
          | _ \<Rightarrow> Inl (MultipleObjectsReturned ''Workspace'')))"

subsection \<open>Responses\<close>

datatype colors = EmptyDict | Values "(string \<times> string) list list"

datatype 'd body =
    Error string
  | Analytics nat 'd colors
  | SavedAnalytics nat 'd
  | Message string
  | DefaultAnalytics nat nat "(datetime \<times> nat) list" "(string \<times> nat) list"

datatype 'd response = Response "'d body" nat

abbreviation HTTP_200_OK :: nat where
  "HTTP_200_OK \<equiv> 200"

abbreviation HTTP_400_BAD_REQUEST :: nat where
  "HTTP_400_BAD_REQUEST \<equiv> 400"

subsection \<open>AnalyticsEndpoint.get\<close>

definition AnalyticsEndpoint_try ::
  "(issue list \<Rightarrow> pyval \<Rightarrow> pyval \<Rightarrow> pyval \<Rightarrow> exn + 'd) \<Rightarrow>
   request \<Rightarrow> string \<Rightarrow> world \<Rightarrow> (exn + 'd response) \<times> world" where
  "AnalyticsEndpoint_try plot request slug w =
     (let x_axis = QueryDict_get (GET request) ''x_axis'' (PyBool False);
          y_axis = QueryDict_get (GET request) ''y_axis'' (PyBool False)
      in
      if falsy x_axis \<or> falsy y_axis then
        (Inr (Response (Error ''x-axis and y-axis dimensions are required'')
                HTTP_400_BAD_REQUEST), w)
      else
        let project_ids = getlist (GET request) ''project'';
            cycle_ids = getlist (GET request) ''cycle'';
            module_ids = getlist (GET request) ''module'';
            segment = QueryDict_get (GET request) ''segment'' (PyBool False);
            queryset = issue_queryset (db w) slug project_ids cycle_ids module_ids
        in
        case count queryset w of
          (Inl e, w1) \<Rightarrow> (Inl e, w1)
        | (Inr total_issues, w1) \<Rightarrow>
            (case call_plot plot queryset x_axis y_axis segment w1 of
               (Inl e, w2) \<Rightarrow> (Inl e, w2)
             | (Inr distribution, w2) \<Rightarrow>
                 let colors = EmptyDict;
                     colors =
                       (if x_axis \<in> set [PyStr ''state__name'', PyStr ''state__group''] then
                          let key = (if x_axis = PyStr ''state__name'' then ''name'' else ''group'')
                          in
                          if project_ids \<noteq> [] then
                            Values (state_values key
                              (filter (\<lambda>s. slug_of (db w2) (state_workspace_id s) = Some slug \<and>
                                           state_project_id s \<in> set project_ids)
                                 (State_objects (db w2))))
                          else
                            Values (state_values key
                              (filter (\<lambda>s. slug_of (db w2) (state_workspace_id s) = Some slug)
                                 (State_objects (db w2))))
                        else colors);
                     colors =
                       (if x_axis \<in> set [PyStr ''labels__name''] then
                          if project_ids \<noteq> [] then
                            Values (label_values
                              (filter (\<lambda>l. slug_of (db w2) (label_workspace_id l) = Some slug \<and>
                                           label_project_id l \<in> set project_ids)
                                 (Label_objects (db w2))))
                          else
                            Values (label_values
                              (filter (\<lambda>l. slug_of (db w2) (label_workspace_id l) = Some slug)
                                 (Label_objects (db w2))))
                        else colors)
                 in (Inr (Response (Analytics total_issues distribution colors) HTTP_200_OK), w2)))"

definition AnalyticsEndpoint_get ::
  "(issue list \<Rightarrow> pyval \<Rightarrow> pyval \<Rightarrow> pyval \<Rightarrow> exn + 'd) \<Rightarrow>
   request \<Rightarrow> string \<Rightarrow> world \<Rightarrow> 'd response \<times> world" where
  "AnalyticsEndpoint_get plot request slug w =
     (case AnalyticsEndpoint_try plot request slug w of
        (Inr r, w') \<Rightarrow> (r, w')
      | (Inl e, w') \<Rightarrow>
          (Response (Error ''Something went wrong please try again later'') HTTP_400_BAD_REQUEST,
           capture_exception e w'))"

subsection \<open>AnalyticViewViewset.perform_create\<close>

record validated_data =
  vd_workspace_id :: "string option"
  vd_query :: "(string \<times> pyval) list"
  vd_query_dict :: "string \<rightharpoonup> pyval"

text \<open>
  Modelled from the spec: the serializer (plane.api.serializers.AnalyticViewSerializer)
  is not in the source. \<^verbatim>\<open>serializer.save(workspace_id=...)\<close> stores one saved view
  built from the validated request body with the keyword argument laid over it (``on
  create, the workspace is injected server-side regardless of request body''). \<open>new_pk\<close>
  is the primary key the new row receives.
\<close>

definition serializer_save :: "validated_data \<Rightarrow> string \<Rightarrow> string \<Rightarrow> world \<Rightarrow> world" where
  "serializer_save vd new_pk workspace_id_kw w =
     (let merged = vd\<lparr>vd_workspace_id := Some workspace_id_kw\<rparr>
      in case vd_workspace_id merged of
           None \<Rightarrow> w
         | Some wid \<Rightarrow>
             w\<lparr>db := (db w)\<lparr>AnalyticView_objects :=
                   AnalyticView_objects (db w) @
                     [\<lparr>pk = new_pk, view_workspace_id = wid,
                       query = vd_query merged, query_dict = vd_query_dict merged\<rparr>]\<rparr>\<rparr>)"

text \<open>The method has no exception handler: what the lookup raises leaves the method.\<close>

definition perform_create :: "validated_data \<Rightarrow> string \<Rightarrow> string \<Rightarrow> world \<Rightarrow> (exn + unit) \<times> world" where
  "perform_create vd new_pk slug w =
     (case Workspace_objects_get slug w of
        Inl e \<Rightarrow> (Inl e, w)
      | Inr workspace \<Rightarrow> (Inr (), serializer_save vd new_pk (workspace_id workspace) w))"

subsection \<open>SavedAnalyticEndpoint.get\<close>

text \<open>
  \<^verbatim>\<open>Issue.objects.filter(**filter)\<close> replays the stored lookups; how the ORM reads
  arbitrary keyword lookups is the parameter \<open>orm_filter\<close>, which returns the rows or
  raises (an unknown field, a malformed value).
\<close>

definition SavedAnalyticEndpoint_try ::
  "((string \<times> pyval) list \<Rightarrow> issue list \<Rightarrow> exn + issue list) \<Rightarrow>
   (issue list \<Rightarrow> pyval \<Rightarrow> pyval \<Rightarrow> pyval \<Rightarrow> exn + 'd) \<Rightarrow>
   request \<Rightarrow> string \<Rightarrow> string \<Rightarrow> world \<Rightarrow> (exn + 'd response) \<times> world" where
  "SavedAnalyticEndpoint_try orm_filter plot request slug analytic_id w =
     (case AnalyticView_objects_get analytic_id slug w of
        Inl e \<Rightarrow> (Inl e, w)
      | Inr analytic_view \<Rightarrow>
          (let filter_kw = query analytic_view
           in case orm_filter filter_kw (Issue_objects (db w)) of
                Inl e \<Rightarrow> (Inl e, w)
              | Inr queryset \<Rightarrow>
                  (let x_axis = dict_get (query_dict analytic_view) ''x_axis'' (PyBool False);
                       y_axis = dict_get (query_dict analytic_view) ''y_axis'' (PyBool False)
                   in
                   if falsy x_axis \<or> falsy y_axis then
                     (Inr (Response (Error ''x-axis and y-axis dimensions are required'')
                             HTTP_400_BAD_REQUEST), w)
                   else
                     let segment = QueryDict_get (GET request) ''segment'' (PyBool False)
                     in
                     case call_plot plot queryset x_axis y_axis segment w of
                       (Inl e, w1) \<Rightarrow> (Inl e, w1)
                     | (Inr distribution, w1) \<Rightarrow>
                         (case count queryset w1 of
                            (Inl e, w2) \<Rightarrow> (Inl e, w2)
                          | (Inr total_issues, w2) \<Rightarrow>
                              (Inr (Response (SavedAnalytics total_issues distribution)
                                      HTTP_200_OK), w2)))))"

definition SavedAnalyticEndpoint_get ::
  "((string \<times> pyval) list \<Rightarrow> issue list \<Rightarrow> exn + issue list) \<Rightarrow>
   (issue list \<Rightarrow> pyval \<Rightarrow> pyval \<Rightarrow> pyval \<Rightarrow> exn + 'd) \<Rightarrow>
   request \<Rightarrow> string \<Rightarrow> string \<Rightarrow> world \<Rightarrow> 'd response \<times> world" where
  "SavedAnalyticEndpoint_get orm_filter plot request slug analytic_id w =
     (case SavedAnalyticEndpoint_try orm_filter plot request slug analytic_id w of
        (Inr r, w') \<Rightarrow> (r, w')
      | (Inl e, w') \<Rightarrow>
          (if e = DoesNotExist ''AnalyticView'' then
             (Response (Error ''Analytic View Does not exist'') HTTP_400_BAD_REQUEST, w')
           else
             (Response (Error ''Something went wrong please try again later'')
                HTTP_400_BAD_REQUEST,
              capture_exception e w')))"

subsection \<open>ExportAnalyticsEndpoint.post\<close>

definition ExportAnalyticsEndpoint_try ::
  "request \<Rightarrow> string \<Rightarrow> world \<Rightarrow> (exn + 'd response) \<times> world" where
  "ExportAnalyticsEndpoint_try request slug w =
     (let x_axis = dict_get (data request) ''x_axis'' (PyBool False);
          y_axis = dict_get (data request) ''y_axis'' (PyBool False)
      in
      if falsy x_axis \<or> falsy y_axis then
        (Inr (Response (Error ''x-axis and y-axis dimensions are required'')
                HTTP_400_BAD_REQUEST), w)
      else
        case delay \<lparr>job_email = user_email request, job_data = data request, job_slug = slug\<rparr> w of
          (Inl e, w1) \<Rightarrow> (Inl e, w1)
        | (Inr u, w1) \<Rightarrow>
            (Inr (Response
                    (Message (''Once the export is ready it will be emailed to you at '' @
                              user_email request))
                    HTTP_200_OK), w1))"

definition ExportAnalyticsEndpoint_post ::
  "request \<Rightarrow> string \<Rightarrow> world \<Rightarrow> 'd response \<times> world" where
  "ExportAnalyticsEndpoint_post request slug w =
     (case ExportAnalyticsEndpoint_try request slug w of
        (Inr r, w') \<Rightarrow> (r, w')
      | (Inl e, w') \<Rightarrow>
          (Response (Error ''Something went wrong please try again later'') HTTP_400_BAD_REQUEST,
           capture_exception e w'))"

subsection \<open>DefaultAnalyticsEndpoint.get\<close>

text \<open>\<^verbatim>\<open>queryset.filter(state__group__in=groups)\<close>\<close>

definition filter_state_group_in :: "string list \<Rightarrow> issue list \<Rightarrow> issue list" where
  "filter_state_group_in groups queryset =
     filter (\<lambda>i. case state_group i of None \<Rightarrow> False | Some g \<Rightarrow> g \<in> set groups) queryset"

definition TruncMonth :: "datetime \<Rightarrow> datetime" where
  "TruncMonth t = t\<lparr>day := 1, hour := 0, minute := 0, second := 0, microsecond := 0\<rparr>"

text \<open>
  \<^verbatim>\<open>.values(k).annotate(n=Count(...))\<close> groups the rows by the value of \<open>k\<close>: one
  result row for every distinct value, with the number of rows that hold it.
\<close>

definition group_count :: "'k list \<Rightarrow> ('k \<times> nat) list" where
  "group_count ks = map (\<lambda>k. (k, count_list ks k)) (remdups ks)"

text \<open>
  \<^verbatim>\<open>queryset.filter(completed_at__isnull=False).annotate(month=TruncMonth("completed_at")).values("month")\<close>
\<close>

definition completed_months :: "issue list \<Rightarrow> datetime list" where
  "completed_months queryset =
     concat (map (\<lambda>i. case completed_at i of None \<Rightarrow> [] | Some t \<Rightarrow> [TruncMonth t]) queryset)"

text \<open>
  \<^verbatim>\<open>queryset.filter(created_by__isnull=False).values("created_by__email")\<close>
\<close>

definition creator_emails :: "issue list \<Rightarrow> string list" where
  "creator_emails queryset =
     concat (map (\<lambda>i. case created_by i of None \<Rightarrow> [] | Some u \<Rightarrow> [email u]) queryset)"

text \<open>The order of datetime values: by year, then month, and so on.\<close>

definition datetime_key :: "datetime \<Rightarrow> int \<times> nat \<times> nat \<times> nat \<times> nat \<times> nat \<times> nat" where
  "datetime_key t = (year t, month t, day t, hour t, minute t, second t, microsecond t)"

text \<open>\<^verbatim>\<open>.order_by("month")\<close> and \<^verbatim>\<open>.order_by("-record_count")\<close>\<close>

definition order_by_month :: "(datetime \<times> nat) list \<Rightarrow> (datetime \<times> nat) list" where
  "order_by_month rows = sort_key (\<lambda>r. datetime_key (fst r)) rows"

definition order_by_record_count_desc :: "(string \<times> nat) list \<Rightarrow> (string \<times> nat) list" where
  "order_by_record_count_desc rows = sort_key (\<lambda>r. - int (snd r)) rows"

text \<open>
  The two grouped querysets of the response are lazy: the handler builds them and the
  renderer reads them, after the handler has returned. The response holds their rows.
\<close>

definition DefaultAnalyticsEndpoint_try ::
  "request \<Rightarrow> string \<Rightarrow> world \<Rightarrow> (exn + 'd response) \<times> world" where
  "DefaultAnalyticsEndpoint_try request slug w =
     (let project_ids = getlist (GET request) ''project'';
          cycle_ids = getlist (GET request) ''cycle'';
          module_ids = getlist (GET request) ''module'';
          queryset = issue_queryset (db w) slug project_ids cycle_ids module_ids
      in
      case count queryset w of
        (Inl e, w1) \<Rightarrow> (Inl e, w1)
      | (Inr total_issues, w1) \<Rightarrow>
          (case count (filter_state_group_in [''backlog'', ''unstarted'', ''started''] queryset) w1 of
             (Inl e, w2) \<Rightarrow> (Inl e, w2)
           | (Inr open_issues, w2) \<Rightarrow>
               let issue_completed_month_wise =
                     order_by_month (group_count (completed_months queryset));
                   most_issue_created_user =
                     order_by_record_count_desc (group_count (creator_emails queryset))
               in (Inr (Response
                          (DefaultAnalytics total_issues open_issues
                             issue_completed_month_wise most_issue_created_user)
                          HTTP_200_OK), w2)))"

definition DefaultAnalyticsEndpoint_get ::
  "request \<Rightarrow> string \<Rightarrow> world \<Rightarrow> 'd response \<times> world" where
  "DefaultAnalyticsEndpoint_get request slug w =
     (case DefaultAnalyticsEndpoint_try request slug w of
        (Inr r, w') \<Rightarrow> (r, w')
      | (Inl e, w') \<Rightarrow>
          (Response (Error ''Something went wrong please try again later'') HTTP_400_BAD_REQUEST,
           print e w'))"

subsection \<open>The distribution builder\<close>

text \<open>
  Modelled from the spec: \<^verbatim>\<open>build_graph_plot\<close> (plane.utils.analytics_plot) is not in
  the source. ``Given a filtered issue collection and one or two grouping dimensions,
  produces counts per group, optionally sub-segmented''; a distribution is ``counts of
  issues grouped by one axis, optionally sub-grouped by a second (segment)''.
  \<open>dimension\<close> reads the value of an issue along a named axis. A group is a value of
  the x axis with its rows; a row is a segment value (\<open>None\<close> without a segment) and
  the number of issues of the group that hold it.
\<close>

type_synonym distribution = "(string \<times> (string option \<times> nat) list) list"

definition build_graph_plot ::
  "(pyval \<Rightarrow> issue \<Rightarrow> string) \<Rightarrow> issue list \<Rightarrow> pyval \<Rightarrow> pyval \<Rightarrow> pyval \<Rightarrow> exn + distribution" where
  "build_graph_plot dimension queryset x_axis y_axis segment =
     Inr (map (\<lambda>g. (g,
                let members = filter (\<lambda>i. dimension x_axis i = g) queryset
                in if falsy segment then [(None, length members)]
                   else map (\<lambda>r. (Some (fst r), snd r))
                          (group_count (map (dimension segment) members))))
            (remdups (map (dimension x_axis) queryset)))"

text \<open>The counts of a distribution, summed over all groups and their rows.\<close>

definition distribution_total :: "distribution \<Rightarrow> nat" where
  "distribution_total d = sum_list (map (\<lambda>g. sum_list (map snd (snd g))) d)"

text \<open>The queryset of a request: the id lists are read from the query string.\<close>

abbreviation request_queryset :: "request \<Rightarrow> string \<Rightarrow> world \<Rightarrow> issue list" where
  "request_queryset request slug w \<equiv>
     issue_queryset (db w) slug (getlist (GET request) ''project'')
       (getlist (GET request) ''cycle'') (getlist (GET request) ''module'')"

section \<open>Sample data\<close>

text \<open>
  Two workspaces; four issues of the first and one of the second; one saved view in
  each. The concrete instances of the theorems below are evaluated on them.
\<close>

definition acme :: workspace where
  "acme = \<lparr>workspace_id = ''w1'', workspace_slug = ''acme''\<rparr>"

definition globex :: workspace where
  "globex = \<lparr>workspace_id = ''w2'', workspace_slug = ''globex''\<rparr>"

definition ann :: user where
  "ann = \<lparr>email = ''ann@example.com''\<rparr>"

definition bob :: user where
  "bob = \<lparr>email = ''bob@example.com''\<rparr>"

definition jan_10 :: datetime where
  "jan_10 = \<lparr>year = 2023, month = 1, day = 10, hour = 9, minute = 30, second = 0, microsecond = 0\<rparr>"

definition mar_15 :: datetime where
  "mar_15 = \<lparr>year = 2023, month = 3, day = 15, hour = 17, minute = 5, second = 42, microsecond = 0\<rparr>"

definition mar_20 :: datetime where
  "mar_20 = \<lparr>year = 2023, month = 3, day = 20, hour = 8, minute = 0, second = 0, microsecond = 0\<rparr>"

definition issue_1 :: issue where
  "issue_1 = \<lparr>issue_id = ''i1'', issue_workspace_id = ''w1'', project_id = ''p1'',
     issue_cycle = [''c1''], issue_module = [''m1''], state_group = Some ''started'',
     completed_at = None, created_by = Some ann\<rparr>"

definition issue_2 :: issue where
  "issue_2 = \<lparr>issue_id = ''i2'', issue_workspace_id = ''w1'', project_id = ''p1'',
     issue_cycle = [], issue_module = [], state_group = Some ''completed'',
     completed_at = Some mar_15, created_by = Some ann\<rparr>"

definition issue_3 :: issue where
  "issue_3 = \<lparr>issue_id = ''i3'', issue_workspace_id = ''w1'', project_id = ''p2'',
     issue_cycle = [''c1''], issue_module = [], state_group = Some ''completed'',
     completed_at = Some jan_10, created_by = Some bob\<rparr>"

definition issue_4 :: issue where
  "issue_4 = \<lparr>issue_id = ''i4'', issue_workspace_id = ''w1'', project_id = ''p2'',
     issue_cycle = [''c2''], issue_module = [''m1''], state_group = Some ''backlog'',
     completed_at = Some mar_20, created_by = Some ann\<rparr>"

definition issue_5 :: issue where
  "issue_5 = \<lparr>issue_id = ''i5'', issue_workspace_id = ''w2'', project_id = ''p9'',
     issue_cycle = [], issue_module = [], state_group = None,
     completed_at = None, created_by = None\<rparr>"

definition view_acme :: analytic_view where
  "view_acme = \<lparr>pk = ''v1'', view_workspace_id = ''w1'', query = [(''project_id'', PyStr ''p1'')],
     query_dict = [''x_axis'' \<mapsto> PyStr ''state__group'', ''y_axis'' \<mapsto> PyStr ''issue_count'']\<rparr>"

definition view_globex :: analytic_view where
  "view_globex = \<lparr>pk = ''v2'', view_workspace_id = ''w2'', query = [],
     query_dict = [''x_axis'' \<mapsto> PyStr ''state__group'', ''y_axis'' \<mapsto> PyStr ''issue_count'']\<rparr>"

definition sample_db :: database where
  "sample_db = \<lparr>Issue_objects = [issue_1, issue_2, issue_3, issue_4, issue_5],
     AnalyticView_objects = [view_acme, view_globex],
     Workspace_objects = [acme, globex],
     State_objects = [], Label_objects = []\<rparr>"

definition sample_world :: world where
  "sample_world = \<lparr>db = sample_db, db_fault = None, broker_fault = None, issue_reads = 0,
     task_queue = [], sentry = [], stdout = []\<rparr>"

text \<open>A request that names both axes, and one that leaves the x axis out.\<close>

definition request_by_state :: request where
  "request_by_state = \<lparr>GET = [''x_axis'' \<mapsto> [''state__group''], ''y_axis'' \<mapsto> [''issue_count'']],
     data = [''x_axis'' \<mapsto> PyStr ''state__group'', ''y_axis'' \<mapsto> PyStr ''issue_count''],
     user_email = ''ann@example.com''\<rparr>"

definition request_no_x_axis :: request where
  "request_no_x_axis = \<lparr>GET = [''y_axis'' \<mapsto> [''issue_count'']],
     data = [''y_axis'' \<mapsto> PyStr ''issue_count''],
     user_email = ''ann@example.com''\<rparr>"

text \<open>The value of an issue along an axis, for the sample data: its state group.\<close>

definition sample_dimension :: "pyval \<Rightarrow> issue \<Rightarrow> string" where
  "sample_dimension axis i = (case state_group i of None \<Rightarrow> ''None'' | Some g \<Rightarrow> g)"

text \<open>The stored lookups of the sample views: a project id, or nothing.\<close>

definition sample_orm_filter :: "(string \<times> pyval) list \<Rightarrow> issue list \<Rightarrow> exn + issue list" where
  "sample_orm_filter kw rows =
     (case kw of
        [] \<Rightarrow> Inr rows
      | [(k, PyStr p)] \<Rightarrow>
          (if k = ''project_id'' then Inr (filter (\<lambda>i. project_id i = p) rows)
           else Inl (Exception ''FieldError''))
      | _ \<Rightarrow> Inl (Exception ''FieldError''))"

section \<open>Properties\<close>

subsection \<open>Facts about the building blocks\<close>

lemmas sample_defs = sample_world_def sample_db_def acme_def globex_def ann_def bob_def
  jan_10_def mar_15_def mar_20_def issue_1_def issue_2_def issue_3_def issue_4_def issue_5_def
  view_acme_def view_globex_def request_by_state_def request_no_x_axis_def
  sample_dimension_def sample_orm_filter_def

lemmas eval_defs = Let_def count_def call_plot_def getlist_def QueryDict_get_def dict_get_def
  issue_queryset_def filter_workspace_slug_def slug_of_def filter_project_id_in_def
  filter_issue_cycle_in_def filter_issue_module_in_def filter_state_group_in_def
  completed_months_def creator_emails_def group_count_def order_by_month_def
  order_by_record_count_desc_def datetime_key_def TruncMonth_def state_values_def
  label_values_def build_graph_plot_def distribution_total_def delay_def
  capture_exception_def print_def AnalyticView_objects_get_def Workspace_objects_get_def
  serializer_save_def

text \<open>A parameter is missing for the handlers when it is absent, empty or falsy.\<close>

lemma falsy_QueryDict_get:
  "falsy (QueryDict_get q key (PyBool False)) \<longleftrightarrow>
     (case q key of None \<Rightarrow> True | Some vs \<Rightarrow> vs = [] \<or> last vs = [])"
  by (auto simp: QueryDict_get_def split: option.splits)

lemma falsy_dict_get:
  "falsy (dict_get d key (PyBool False)) \<longleftrightarrow>
     (case d key of None \<Rightarrow> True | Some v \<Rightarrow> falsy v)"
  by (auto simp: dict_get_def split: option.splits)

lemma set_filter_issue_cycle_in:
  "set (filter_issue_cycle_in cycle_ids queryset) =
     {i \<in> set queryset. \<exists>c \<in> set (issue_cycle i). c \<in> set cycle_ids}"
  by (auto simp: filter_issue_cycle_in_def)

lemma set_filter_issue_module_in:
  "set (filter_issue_module_in module_ids queryset) =
     {i \<in> set queryset. \<exists>m \<in> set (issue_module i). m \<in> set module_ids}"
  by (auto simp: filter_issue_module_in_def)

lemma length_filter_state_group_in:
  "length (filter_state_group_in groups queryset) \<le> length queryset"
  by (simp add: filter_state_group_in_def)

lemma filter_state_group_in_eq:
  "filter_state_group_in groups queryset =
     filter (\<lambda>i. state_group i \<in> Some ` set groups) queryset"
  unfolding filter_state_group_in_def
  by (rule filter_cong) (auto split: option.splits)

lemma group_count_row:
  "(k, n) \<in> set (group_count ks) \<longleftrightarrow> k \<in> set ks \<and> n = count_list ks k"
  by (auto simp: group_count_def)

lemma group_count_keys: "map fst (group_count ks) = remdups ks"
  by (simp add: group_count_def comp_def)

lemma sum_group_count: "sum_list (map snd (group_count ks)) = length ks"
proof -
  have "sum_list (map snd (group_count ks)) = sum_list (map (count_list ks) (remdups ks))"
    by (simp add: group_count_def comp_def)
  also have "\<dots> = sum (count_list ks) (set ks)"
    by (simp add: sum_list_distinct_conv_sum_set)
  also have "\<dots> = length ks"
    by (rule sum_count_set) simp_all
  finally show ?thesis .
qed

lemma sum_group_members:
  "sum_list (map (\<lambda>g. length (filter (\<lambda>i. f i = g) xs)) (remdups (map f xs))) = length xs"
proof -
  have "length (filter (\<lambda>i. f i = g) xs) = count_list (map f xs) g" for g
    by (induction xs) auto
  then have "sum_list (map (\<lambda>g. length (filter (\<lambda>i. f i = g) xs)) (remdups (map f xs))) =
        sum_list (map snd (group_count (map f xs)))"
    by (simp add: group_count_def comp_def)
  then show ?thesis
    by (simp add: sum_group_count)
qed

lemma sum_list_insort_key:
  fixes g :: "'a \<Rightarrow> nat"
  shows "sum_list (map g (insort_key f x xs)) = g x + sum_list (map g xs)"
  by (induction xs) auto

lemma sum_list_sort_key:
  fixes g :: "'a \<Rightarrow> nat"
  shows "sum_list (map g (sort_key f xs)) = sum_list (map g xs)"
  by (induction xs) (auto simp: sum_list_insort_key)

lemma distinct_keys_sort_key_group_count: "distinct (map fst (sort_key f (group_count ks)))"
proof -
  have "distinct (map fst (group_count ks))"
    by (simp add: group_count_keys)
  then have "distinct (group_count ks)" "inj_on fst (set (group_count ks))"
    by (simp_all add: distinct_map)
  then show ?thesis
    by (simp add: distinct_map)
qed

lemma order_by_record_count_desc_sorted:
  "sorted_wrt (\<lambda>a b. snd b \<le> snd a) (order_by_record_count_desc rows)"
proof -
  have "sorted (map (\<lambda>r. - int (snd r)) (order_by_record_count_desc rows))"
    unfolding order_by_record_count_desc_def by (rule sorted_sort_key)
  then show ?thesis
    by (simp add: sorted_map)
qed

lemma set_completed_months:
  "set (completed_months queryset) =
     {TruncMonth t | t i. i \<in> set queryset \<and> completed_at i = Some t}"
  by (auto simp: completed_months_def split: option.splits) (metis+)

lemma length_completed_months:
  "length (completed_months queryset) = length (filter (\<lambda>i. completed_at i \<noteq> None) queryset)"
  by (induction queryset) (auto simp: completed_months_def split: option.splits)

lemma count_completed_months:
  "count_list (completed_months queryset) m =
     length (filter (\<lambda>i. map_option TruncMonth (completed_at i) = Some m) queryset)"
  by (induction queryset) (auto simp: completed_months_def split: option.splits)

lemma count_creator_emails:
  "count_list (creator_emails queryset) a =
     length (filter (\<lambda>i. map_option email (created_by i) = Some a) queryset)"
  by (induction queryset) (auto simp: creator_emails_def split: option.splits)

lemma build_graph_plot_total:
  assumes "build_graph_plot dimension queryset x_axis y_axis segment = Inr d"
  shows "distribution_total d = length queryset"
proof -
  let ?members = "\<lambda>g. filter (\<lambda>i. dimension x_axis i = g) queryset"
  let ?rows = "\<lambda>g. if falsy segment then [(None, length (?members g))]
                   else map (\<lambda>r. (Some (fst r), snd r))
                          (group_count (map (dimension segment) (?members g)))"
  have rows: "sum_list (map snd (?rows g)) = length (?members g)" for g
    using sum_group_count [of "map (dimension segment) (?members g)"]
    by (simp add: comp_def)
  have d: "d = map (\<lambda>g. (g, ?rows g)) (remdups (map (dimension x_axis) queryset))"
    using assms by (simp add: build_graph_plot_def Let_def)
  have "distribution_total d =
      sum_list (map (\<lambda>g. sum_list (map snd (?rows g)))
        (remdups (map (dimension x_axis) queryset)))"
    unfolding d distribution_total_def by (simp add: comp_def)
  also have "\<dots> =
      sum_list (map (\<lambda>g. length (?members g)) (remdups (map (dimension x_axis) queryset)))"
    by (simp only: rows)
  also have "\<dots> = length queryset"
    by (rule sum_group_members)
  finally show ?thesis .
qed

subsection \<open>What a successful response holds\<close>

lemma AnalyticsEndpoint_success:
  assumes "AnalyticsEndpoint_get plot request slug w = (Response (Analytics total_issues d colors) st, w')"
  shows "total_issues = length (request_queryset request slug w)"
    and "plot (request_queryset request slug w)
           (QueryDict_get (GET request) ''x_axis'' (PyBool False))
           (QueryDict_get (GET request) ''y_axis'' (PyBool False))
           (QueryDict_get (GET request) ''segment'' (PyBool False)) = Inr d"
    and "st = HTTP_200_OK"
  using assms
  by (simp_all add: AnalyticsEndpoint_get_def AnalyticsEndpoint_try_def Let_def count_def
      call_plot_def split: option.splits sum.splits if_splits)

lemma SavedAnalyticEndpoint_success:
  assumes "SavedAnalyticEndpoint_get orm_filter plot request slug analytic_id w =
             (Response (SavedAnalytics total_issues d) st, w')"
  shows "\<exists>v queryset.
           AnalyticView_objects_get analytic_id slug w = Inr v \<and>
           orm_filter (query v) (Issue_objects (db w)) = Inr queryset \<and>
           plot queryset (dict_get (query_dict v) ''x_axis'' (PyBool False))
             (dict_get (query_dict v) ''y_axis'' (PyBool False))
             (QueryDict_get (GET request) ''segment'' (PyBool False)) = Inr d \<and>
           total_issues = length queryset \<and> st = HTTP_200_OK"
  using assms
  by (simp add: SavedAnalyticEndpoint_get_def SavedAnalyticEndpoint_try_def Let_def count_def
      call_plot_def split: option.splits sum.splits if_splits)

lemma DefaultAnalyticsEndpoint_success:
  assumes "DefaultAnalyticsEndpoint_get request slug w =
             (Response (DefaultAnalytics total_issues open_issues monthly creators) st, w')"
  shows "total_issues = length (request_queryset request slug w)"
    and "open_issues =
           length (filter_state_group_in [''backlog'', ''unstarted'', ''started'']
             (request_queryset request slug w))"
    and "monthly = order_by_month (group_count (completed_months (request_queryset request slug w)))"
    and "creators =
           order_by_record_count_desc (group_count (creator_emails (request_queryset request slug w)))"
    and "st = HTTP_200_OK"
  using assms
  by (auto simp: DefaultAnalyticsEndpoint_get_def DefaultAnalyticsEndpoint_try_def Let_def count_def
      split: option.splits)

lemma AnalyticView_objects_get_missing:
  assumes "db_fault w = None"
    and "\<forall>v \<in> set (AnalyticView_objects (db w)).
           pk v = analytic_id \<longrightarrow> slug_of (db w) (view_workspace_id v) \<noteq> Some slug"
  shows "AnalyticView_objects_get analytic_id slug w = Inl (DoesNotExist ''AnalyticView'')"
proof -
  have "filter (\<lambda>v. pk v = analytic_id \<and> slug_of (db w) (view_workspace_id v) = Some slug)
          (AnalyticView_objects (db w)) = []"
    using assms(2) by (auto simp: filter_empty_conv)
  then show ?thesis
    using assms(1) by (simp add: AnalyticView_objects_get_def)
qed

text \<open>
  The three handlers guarded by the admin permission give what their body raises to
  \<^verbatim>\<open>capture_exception\<close>.
\<close>

lemma AnalyticsEndpoint_get_reports:
  assumes "AnalyticsEndpoint_try plot request slug w = (Inl e, w')"
  shows "AnalyticsEndpoint_get plot request slug w =
           (Response (Error ''Something went wrong please try again later'') HTTP_400_BAD_REQUEST,
            w'\<lparr>sentry := sentry w' @ [e]\<rparr>)"
  using assms by (simp add: AnalyticsEndpoint_get_def capture_exception_def)

lemma SavedAnalyticEndpoint_get_reports:
  assumes "SavedAnalyticEndpoint_try orm_filter plot request slug analytic_id w = (Inl e, w')"
    and "e \<noteq> DoesNotExist ''AnalyticView''"
  shows "SavedAnalyticEndpoint_get orm_filter plot request slug analytic_id w =
           (Response (Error ''Something went wrong please try again later'') HTTP_400_BAD_REQUEST,
            w'\<lparr>sentry := sentry w' @ [e]\<rparr>)"
  using assms by (simp add: SavedAnalyticEndpoint_get_def capture_exception_def)

lemma ExportAnalyticsEndpoint_post_reports:
  assumes "(ExportAnalyticsEndpoint_try request slug w :: (exn + 'd response) \<times> world) = (Inl e, w')"
  shows "(ExportAnalyticsEndpoint_post request slug w :: 'd response \<times> world) =
           (Response (Error ''Something went wrong please try again later'') HTTP_400_BAD_REQUEST,
            w'\<lparr>sentry := sentry w' @ [e]\<rparr>)"
  using assms by (simp add: ExportAnalyticsEndpoint_post_def capture_exception_def)

lemma AnalyticsEndpoint_get_db_fault:
  assumes "db_fault w = Some e"
    and "falsy (QueryDict_get (GET request) ''x_axis'' (PyBool False)) = False"
    and "falsy (QueryDict_get (GET request) ''y_axis'' (PyBool False)) = False"
  shows "AnalyticsEndpoint_get plot request slug w =
           (Response (Error ''Something went wrong please try again later'') HTTP_400_BAD_REQUEST,
            w\<lparr>sentry := sentry w @ [e]\<rparr>)"
  using assms
  by (simp add: AnalyticsEndpoint_get_def AnalyticsEndpoint_try_def Let_def count_def
      capture_exception_def)

subsection \<open>The claims\<close>

text \<open>
  Claim C1. A GET to AnalyticsEndpoint whose \<open>x_axis\<close> or \<open>y_axis\<close> query parameter is
  missing, empty or falsy, and a POST to ExportAnalyticsEndpoint whose body lacks a truthy
  \<open>x_axis\<close> or \<open>y_axis\<close>, is answered with the body
  \<open>{"error": "x-axis and y-axis dimensions are required"}\<close> and status 400. The handler
  returns this response for every plot function, database and broker state, calls no
  collaborator and leaves the world as it was, so nothing can fail on the way.
\<close>

theorem missing_axis_is_validation_error:
  "(falsy (QueryDict_get (GET request) ''x_axis'' (PyBool False)) \<or>
    falsy (QueryDict_get (GET request) ''y_axis'' (PyBool False)) \<longrightarrow>
    AnalyticsEndpoint_get plot request slug w =
      (Response (Error ''x-axis and y-axis dimensions are required'') HTTP_400_BAD_REQUEST, w)) \<and>
   (falsy (dict_get (data request) ''x_axis'' (PyBool False)) \<or>
    falsy (dict_get (data request) ''y_axis'' (PyBool False)) \<longrightarrow>
    (ExportAnalyticsEndpoint_post request slug w :: 'e response \<times> world) =
      (Response (Error ''x-axis and y-axis dimensions are required'') HTTP_400_BAD_REQUEST, w))"
  by (auto simp: AnalyticsEndpoint_get_def AnalyticsEndpoint_try_def
      ExportAnalyticsEndpoint_post_def ExportAnalyticsEndpoint_try_def Let_def)

theorem missing_axis_is_validation_error_witness:
  "AnalyticsEndpoint_get (build_graph_plot sample_dimension) request_no_x_axis ''acme'' sample_world =
     (Response (Error ''x-axis and y-axis dimensions are required'') HTTP_400_BAD_REQUEST,
      sample_world) \<and>
   (ExportAnalyticsEndpoint_post request_no_x_axis ''acme'' sample_world :: unit response \<times> world) =
     (Response (Error ''x-axis and y-axis dimensions are required'') HTTP_400_BAD_REQUEST,
      sample_world)"
proof -
  note t = missing_axis_is_validation_error
    [where request = request_no_x_axis and slug = "''acme''" and w = sample_world]
  have a: "AnalyticsEndpoint_get (build_graph_plot sample_dimension) request_no_x_axis ''acme''
             sample_world =
           (Response (Error ''x-axis and y-axis dimensions are required'') HTTP_400_BAD_REQUEST,
            sample_world)"
    by (rule t [THEN conjunct1, THEN mp])
       (simp add: request_no_x_axis_def QueryDict_get_def)
  have b: "(ExportAnalyticsEndpoint_post request_no_x_axis ''acme'' sample_world
             :: unit response \<times> world) =
           (Response (Error ''x-axis and y-axis dimensions are required'') HTTP_400_BAD_REQUEST,
            sample_world)"
    by (rule t [THEN conjunct2, THEN mp])
       (simp add: request_no_x_axis_def dict_get_def)
  from a b show ?thesis ..
qed

text \<open>
  Claim C2. In every successful response of AnalyticsEndpoint and of SavedAnalyticEndpoint
  the counts of the returned distribution, summed over all groups and their segment rows,
  equal the returned \<open>total\<close>, and \<open>total\<close> is the number of rows of the filtered
  queryset. The distribution builder is the one modelled from the spec.
\<close>

theorem distribution_sums_to_total:
  "(AnalyticsEndpoint_get (build_graph_plot dimension) request slug w =
      (Response (Analytics total_issues d colors) st, w') \<longrightarrow>
    distribution_total d = total_issues \<and>
    total_issues = length (request_queryset request slug w)) \<and>
   (SavedAnalyticEndpoint_get orm_filter (build_graph_plot dimension) request slug analytic_id w =
      (Response (SavedAnalytics total_issues d) st, w') \<longrightarrow>
    distribution_total d = total_issues \<and>
    (\<exists>v queryset.
       AnalyticView_objects_get analytic_id slug w = Inr v \<and>
       orm_filter (query v) (Issue_objects (db w)) = Inr queryset \<and>
       total_issues = length queryset))"
proof (intro conjI impI)
  assume a: "AnalyticsEndpoint_get (build_graph_plot dimension) request slug w =
      (Response (Analytics total_issues d colors) st, w')"
  show "total_issues = length (request_queryset request slug w)"
    by (rule AnalyticsEndpoint_success(1) [OF a])
  then show "distribution_total d = total_issues"
    using build_graph_plot_total [OF AnalyticsEndpoint_success(2) [OF a]] by simp
next
  assume s: "SavedAnalyticEndpoint_get orm_filter (build_graph_plot dimension) request slug
      analytic_id w = (Response (SavedAnalytics total_issues d) st, w')"
  from SavedAnalyticEndpoint_success [OF s]
  obtain v queryset where v: "AnalyticView_objects_get analytic_id slug w = Inr v"
    and q: "orm_filter (query v) (Issue_objects (db w)) = Inr queryset"
    and p: "build_graph_plot dimension queryset (dict_get (query_dict v) ''x_axis'' (PyBool False))
             (dict_get (query_dict v) ''y_axis'' (PyBool False))
             (QueryDict_get (GET request) ''segment'' (PyBool False)) = Inr d"
    and n: "total_issues = length queryset"
    by blast
  show "distribution_total d = total_issues"
    using build_graph_plot_total [OF p] n by simp
  show "\<exists>v queryset.
       AnalyticView_objects_get analytic_id slug w = Inr v \<and>
       orm_filter (query v) (Issue_objects (db w)) = Inr queryset \<and>
       total_issues = length queryset"
    using v q n by blast
qed

theorem distribution_sums_to_total_witness:
  "AnalyticsEndpoint_get (build_graph_plot sample_dimension) request_by_state ''acme'' sample_world =
     (Response (Analytics 4
        [(''started'', [(None, 1)]), (''completed'', [(None, 2)]), (''backlog'', [(None, 1)])]
        (Values [])) HTTP_200_OK,
      sample_world\<lparr>issue_reads := 2\<rparr>) \<and>
   distribution_total
     [(''started'', [(None, 1)]), (''completed'', [(None, 2)]), (''backlog'', [(None, 1)])] = 4 \<and>
   SavedAnalyticEndpoint_get sample_orm_filter (build_graph_plot sample_dimension) request_by_state
       ''acme'' ''v1'' sample_world =
     (Response (SavedAnalytics 2 [(''started'', [(None, 1)]), (''completed'', [(None, 1)])])
        HTTP_200_OK,
      sample_world\<lparr>issue_reads := 2\<rparr>) \<and>
   distribution_total [(''started'', [(None, 1)]), (''completed'', [(None, 1)])] = 2"
proof -
  have a: "AnalyticsEndpoint_get (build_graph_plot sample_dimension) request_by_state ''acme''
        sample_world =
     (Response (Analytics 4
        [(''started'', [(None, 1)]), (''completed'', [(None, 2)]), (''backlog'', [(None, 1)])]
        (Values [])) HTTP_200_OK,
      sample_world\<lparr>issue_reads := 2\<rparr>)"
    by (simp add: AnalyticsEndpoint_get_def AnalyticsEndpoint_try_def eval_defs sample_defs)
  have s: "SavedAnalyticEndpoint_get sample_orm_filter (build_graph_plot sample_dimension)
        request_by_state ''acme'' ''v1'' sample_world =
     (Response (SavedAnalytics 2 [(''started'', [(None, 1)]), (''completed'', [(None, 1)])])
        HTTP_200_OK,
      sample_world\<lparr>issue_reads := 2\<rparr>)"
    by (simp add: SavedAnalyticEndpoint_get_def SavedAnalyticEndpoint_try_def eval_defs sample_defs)
  from distribution_sums_to_total [THEN conjunct1, rule_format, OF a]
  have ta: "distribution_total
     [(''started'', [(None, 1)]), (''completed'', [(None, 2)]), (''backlog'', [(None, 1)])] = 4"
    by simp
  from distribution_sums_to_total [THEN conjunct2, rule_format, OF s]
  have ts: "distribution_total [(''started'', [(None, 1)]), (''completed'', [(None, 1)])] = 2"
    by simp
  from a ta s ts show ?thesis by blast
qed

text \<open>
  Claim C3. A GET to SavedAnalyticEndpoint whose view id names no saved view, or only views
  of a workspace other than the one of the path slug, is answered with the body
  \<open>{"error": "Analytic View Does not exist"}\<close> and status 400, whatever the stored
  views hold; nothing is read, reported or changed. The database answers the lookup
  (\<open>db_fault w = None\<close>).
\<close>

theorem missing_saved_view_is_rejected:
  assumes "db_fault w = None"
    and "\<forall>v \<in> set (AnalyticView_objects (db w)).
           pk v = analytic_id \<longrightarrow> slug_of (db w) (view_workspace_id v) \<noteq> Some slug"
  shows "SavedAnalyticEndpoint_get orm_filter plot request slug analytic_id w =
           (Response (Error ''Analytic View Does not exist'') HTTP_400_BAD_REQUEST, w)"
  using AnalyticView_objects_get_missing [OF assms]
  by (simp add: SavedAnalyticEndpoint_get_def SavedAnalyticEndpoint_try_def)

theorem missing_saved_view_is_rejected_witness:
  "SavedAnalyticEndpoint_get sample_orm_filter (build_graph_plot sample_dimension) request_by_state
       ''acme'' ''v2'' sample_world =
     (Response (Error ''Analytic View Does not exist'') HTTP_400_BAD_REQUEST, sample_world) \<and>
   SavedAnalyticEndpoint_get sample_orm_filter (build_graph_plot sample_dimension) request_by_state
       ''acme'' ''v9'' sample_world =
     (Response (Error ''Analytic View Does not exist'') HTTP_400_BAD_REQUEST, sample_world)"
proof -
  have f: "db_fault sample_world = None"
    by (simp add: sample_world_def)
  have other: "\<forall>v \<in> set (AnalyticView_objects (db sample_world)).
      pk v = ''v2'' \<longrightarrow> slug_of (db sample_world) (view_workspace_id v) \<noteq> Some ''acme''"
    by (simp add: slug_of_def sample_defs)
  have none: "\<forall>v \<in> set (AnalyticView_objects (db sample_world)).
      pk v = ''v9'' \<longrightarrow> slug_of (db sample_world) (view_workspace_id v) \<noteq> Some ''acme''"
    by (simp add: slug_of_def sample_defs)
  from missing_saved_view_is_rejected [OF f other] missing_saved_view_is_rejected [OF f none]
  show ?thesis by blast
qed

text \<open>
  Claim C4. In every successful response of DefaultAnalyticsEndpoint, \<open>open_issues\<close> is
  the number of rows of the filtered queryset whose state group is backlog, unstarted or
  started, \<open>total_issues\<close> is the number of all its rows, and so
  \<open>open_issues \<le> total_issues\<close>.
\<close>

theorem open_issues_le_total_issues:
  assumes "(DefaultAnalyticsEndpoint_get request slug w :: 'd response \<times> world) =
             (Response (DefaultAnalytics total_issues open_issues monthly creators) st, w')"
  shows "open_issues =
           length (filter (\<lambda>i. state_group i \<in>
                            {Some ''backlog'', Some ''unstarted'', Some ''started''})
                     (request_queryset request slug w)) \<and>
         total_issues = length (request_queryset request slug w) \<and>
         open_issues \<le> total_issues"
proof -
  have "open_issues =
      length (filter_state_group_in [''backlog'', ''unstarted'', ''started'']
        (request_queryset request slug w))"
    by (rule DefaultAnalyticsEndpoint_success(2) [OF assms])
  moreover have "total_issues = length (request_queryset request slug w)"
    by (rule DefaultAnalyticsEndpoint_success(1) [OF assms])
  ultimately show ?thesis
    by (simp add: filter_state_group_in_eq)
qed

theorem open_issues_le_total_issues_witness:
  "(DefaultAnalyticsEndpoint_get request_by_state ''acme'' sample_world :: unit response \<times> world) =
     (Response (DefaultAnalytics 4 2
        [(TruncMonth jan_10, 1), (TruncMonth mar_15, 2)]
        [(''ann@example.com'', 3), (''bob@example.com'', 1)]) HTTP_200_OK,
      sample_world\<lparr>issue_reads := 2\<rparr>) \<and>
   (2::nat) \<le> 4 \<and>
   length (request_queryset request_by_state ''acme'' sample_world) = 4"
proof -
  have h: "(DefaultAnalyticsEndpoint_get request_by_state ''acme'' sample_world
        :: unit response \<times> world) =
     (Response (DefaultAnalytics 4 2
        [(TruncMonth jan_10, 1), (TruncMonth mar_15, 2)]
        [(''ann@example.com'', 3), (''bob@example.com'', 1)]) HTTP_200_OK,
      sample_world\<lparr>issue_reads := 2\<rparr>)"
    by (simp add: DefaultAnalyticsEndpoint_get_def DefaultAnalyticsEndpoint_try_def
        eval_defs sample_defs)
  from open_issues_le_total_issues [OF h] h show ?thesis
    by simp
qed

text \<open>
  Claim C5. The issue set of AnalyticsEndpoint and of DefaultAnalyticsEndpoint is
  restricted conjunctively: an issue is in the queryset exactly when it is an issue of the
  path workspace and, for every id list that is given, its project is in the project list,
  one of its cycle links is in the cycle list and one of its module links is in the module
  list. Both handlers count and plot this queryset, built from the \<open>project\<close>,
  \<open>cycle\<close> and \<open>module\<close> parameters of the query string.
\<close>

theorem filters_are_conjunctive:
  "(i \<in> set (issue_queryset d slug project_ids cycle_ids module_ids) \<longleftrightarrow>
      i \<in> set (Issue_objects d) \<and>
      slug_of d (issue_workspace_id i) = Some slug \<and>
      (project_ids \<noteq> [] \<longrightarrow> project_id i \<in> set project_ids) \<and>
      (cycle_ids \<noteq> [] \<longrightarrow> (\<exists>c \<in> set (issue_cycle i). c \<in> set cycle_ids)) \<and>
      (module_ids \<noteq> [] \<longrightarrow> (\<exists>m \<in> set (issue_module i). m \<in> set module_ids))) \<and>
   (AnalyticsEndpoint_get plot request slug w =
      (Response (Analytics total_issues dist colors) st, w') \<longrightarrow>
    total_issues = length (request_queryset request slug w) \<and>
    plot (request_queryset request slug w)
      (QueryDict_get (GET request) ''x_axis'' (PyBool False))
      (QueryDict_get (GET request) ''y_axis'' (PyBool False))
      (QueryDict_get (GET request) ''segment'' (PyBool False)) = Inr dist) \<and>
   ((DefaultAnalyticsEndpoint_get request slug w :: 'e response \<times> world) =
      (Response (DefaultAnalytics total_issues open_issues monthly creators) st, w') \<longrightarrow>
    total_issues = length (request_queryset request slug w))"
proof (intro conjI impI)
  show "i \<in> set (issue_queryset d slug project_ids cycle_ids module_ids) \<longleftrightarrow>
      i \<in> set (Issue_objects d) \<and>
      slug_of d (issue_workspace_id i) = Some slug \<and>
      (project_ids \<noteq> [] \<longrightarrow> project_id i \<in> set project_ids) \<and>
      (cycle_ids \<noteq> [] \<longrightarrow> (\<exists>c \<in> set (issue_cycle i). c \<in> set cycle_ids)) \<and>
      (module_ids \<noteq> [] \<longrightarrow> (\<exists>m \<in> set (issue_module i). m \<in> set module_ids))"
    by (auto simp: issue_queryset_def Let_def set_filter_issue_cycle_in
        set_filter_issue_module_in filter_project_id_in_def filter_workspace_slug_def)
next
  assume a: "AnalyticsEndpoint_get plot request slug w =
      (Response (Analytics total_issues dist colors) st, w')"
  show "total_issues = length (request_queryset request slug w)"
    by (rule AnalyticsEndpoint_success(1) [OF a])
  show "plot (request_queryset request slug w)
      (QueryDict_get (GET request) ''x_axis'' (PyBool False))
      (QueryDict_get (GET request) ''y_axis'' (PyBool False))
      (QueryDict_get (GET request) ''segment'' (PyBool False)) = Inr dist"
    by (rule AnalyticsEndpoint_success(2) [OF a])
next
  assume "(DefaultAnalyticsEndpoint_get request slug w :: 'e response \<times> world) =
      (Response (DefaultAnalytics total_issues open_issues monthly creators) st, w')"
  then show "total_issues = length (request_queryset request slug w)"
    by (rule DefaultAnalyticsEndpoint_success(1))
qed

theorem filters_are_conjunctive_witness:
  "issue_1 \<in> set (issue_queryset sample_db ''acme'' [''p1''] [''c1''] []) \<and>
   issue_2 \<notin> set (issue_queryset sample_db ''acme'' [''p1''] [''c1''] []) \<and>
   issue_3 \<notin> set (issue_queryset sample_db ''acme'' [''p1''] [''c1''] []) \<and>
   issue_5 \<notin> set (issue_queryset sample_db ''acme'' [] [] [])"
proof -
  note t = filters_are_conjunctive [THEN conjunct1]
  have 1: "issue_1 \<in> set (issue_queryset sample_db ''acme'' [''p1''] [''c1''] [])"
    unfolding t by (simp add: slug_of_def sample_defs)
  have 2: "issue_2 \<notin> set (issue_queryset sample_db ''acme'' [''p1''] [''c1''] [])"
    unfolding t by (simp add: slug_of_def sample_defs)
  have 3: "issue_3 \<notin> set (issue_queryset sample_db ''acme'' [''p1''] [''c1''] [])"
    unfolding t by (simp add: slug_of_def sample_defs)
  have 5: "issue_5 \<notin> set (issue_queryset sample_db ''acme'' [] [] [])"
    unfolding t by (simp add: slug_of_def sample_defs)
  from 1 2 3 5 show ?thesis by blast
qed

text \<open>
  Claim C6, for DefaultAnalyticsEndpoint: an exception raised in the body of the handler
  (here by the database, at the first count) is answered with the generic body and status
  400, but it is printed to the standard output and not given to the error tracker, whose
  record stays as it was. The three other handlers call \<^verbatim>\<open>capture_exception\<close>
  (lemmas \<open>AnalyticsEndpoint_get_reports\<close>, \<open>SavedAnalyticEndpoint_get_reports\<close>,
  \<open>ExportAnalyticsEndpoint_post_reports\<close>).
\<close>

theorem DefaultAnalyticsEndpoint_get_prints_exception:
  assumes "db_fault w = Some e"
  shows "(DefaultAnalyticsEndpoint_get request slug w :: 'd response \<times> world) =
           (Response (Error ''Something went wrong please try again later'') HTTP_400_BAD_REQUEST,
            w\<lparr>stdout := stdout w @ [e]\<rparr>) \<and>
         sentry (snd (DefaultAnalyticsEndpoint_get request slug w :: 'd response \<times> world)) =
           sentry w"
  using assms
  by (simp add: DefaultAnalyticsEndpoint_get_def DefaultAnalyticsEndpoint_try_def Let_def
      count_def print_def)

theorem DefaultAnalyticsEndpoint_get_prints_exception_witness:
  "(DefaultAnalyticsEndpoint_get request_by_state ''acme''
      (sample_world\<lparr>db_fault := Some (Exception ''OperationalError'')\<rparr>) :: unit response \<times> world) =
     (Response (Error ''Something went wrong please try again later'') HTTP_400_BAD_REQUEST,
      sample_world\<lparr>db_fault := Some (Exception ''OperationalError''),
                   stdout := [Exception ''OperationalError'']\<rparr>) \<and>
   sentry (snd (DefaultAnalyticsEndpoint_get request_by_state ''acme''
      (sample_world\<lparr>db_fault := Some (Exception ''OperationalError'')\<rparr>)
        :: unit response \<times> world)) = [] \<and>
   AnalyticsEndpoint_get (build_graph_plot sample_dimension) request_by_state ''acme''
      (sample_world\<lparr>db_fault := Some (Exception ''OperationalError'')\<rparr>) =
     (Response (Error ''Something went wrong please try again later'') HTTP_400_BAD_REQUEST,
      sample_world\<lparr>db_fault := Some (Exception ''OperationalError''),
                   sentry := [Exception ''OperationalError'']\<rparr>)"
proof -
  have f: "db_fault (sample_world\<lparr>db_fault := Some (Exception ''OperationalError'')\<rparr>) =
      Some (Exception ''OperationalError'')"
    by simp
  have x: "falsy (QueryDict_get (GET request_by_state) ''x_axis'' (PyBool False)) = False"
    and y: "falsy (QueryDict_get (GET request_by_state) ''y_axis'' (PyBool False)) = False"
    by (simp_all add: QueryDict_get_def request_by_state_def)
  from DefaultAnalyticsEndpoint_get_prints_exception [OF f, of request_by_state "''acme''"]
    AnalyticsEndpoint_get_db_fault [OF f x y, of "build_graph_plot sample_dimension" "''acme''"]
  show ?thesis
    by (simp add: sample_world_def)
qed

text \<open>
  Claim C7. A create through AnalyticViewViewset stores one saved view whose workspace is
  the workspace of the path slug, whatever workspace the validated request body names.
\<close>

theorem perform_create_stores_path_workspace:
  assumes "perform_create vd new_pk slug w = (Inr (), w')"
  shows "\<exists>ws v. ws \<in> set (Workspace_objects (db w)) \<and> workspace_slug ws = slug \<and>
           AnalyticView_objects (db w') = AnalyticView_objects (db w) @ [v] \<and>
           view_workspace_id v = workspace_id ws \<and> pk v = new_pk"
proof -
  obtain ws where g: "Workspace_objects_get slug w = Inr ws"
    and w': "w' = serializer_save vd new_pk (workspace_id ws) w"
    using assms by (auto simp: perform_create_def split: sum.splits)
  from g have "filter (\<lambda>ws. workspace_slug ws = slug) (Workspace_objects (db w)) = [ws]"
    by (auto simp: Workspace_objects_get_def split: option.splits list.splits)
  then have "ws \<in> set (filter (\<lambda>ws. workspace_slug ws = slug) (Workspace_objects (db w)))"
    by simp
  then have "ws \<in> set (Workspace_objects (db w))" "workspace_slug ws = slug"
    by auto
  then show ?thesis
    using w' by (auto simp: serializer_save_def)
qed

theorem perform_create_stores_path_workspace_witness:
  "perform_create \<lparr>vd_workspace_id = Some ''w2'', vd_query = [], vd_query_dict = Map.empty\<rparr>
       ''v3'' ''acme'' sample_world =
     (Inr (), sample_world\<lparr>db := sample_db\<lparr>AnalyticView_objects :=
        [view_acme, view_globex,
         \<lparr>pk = ''v3'', view_workspace_id = ''w1'', query = [], query_dict = Map.empty\<rparr>]\<rparr>\<rparr>) \<and>
   (\<exists>ws v. ws \<in> set (Workspace_objects sample_db) \<and> workspace_slug ws = ''acme'' \<and>
      [view_acme, view_globex,
       \<lparr>pk = ''v3'', view_workspace_id = ''w1'', query = [], query_dict = Map.empty\<rparr>] =
        AnalyticView_objects sample_db @ [v] \<and>
      view_workspace_id v = workspace_id ws \<and> pk v = ''v3'')"
proof -
  have h: "perform_create \<lparr>vd_workspace_id = Some ''w2'', vd_query = [], vd_query_dict = Map.empty\<rparr>
       ''v3'' ''acme'' sample_world =
     (Inr (), sample_world\<lparr>db := sample_db\<lparr>AnalyticView_objects :=
        [view_acme, view_globex,
         \<lparr>pk = ''v3'', view_workspace_id = ''w1'', query = [], query_dict = Map.empty\<rparr>]\<rparr>\<rparr>)"
    by (simp add: perform_create_def Workspace_objects_get_def serializer_save_def
        sample_world_def sample_db_def acme_def globex_def)
  from perform_create_stores_path_workspace [OF h] h show ?thesis
    by (simp add: sample_world_def)
qed

text \<open>
  Claim C8. A POST to ExportAnalyticsEndpoint with both axes present, while the broker
  accepts the task (\<open>broker_fault w = None\<close>), enqueues exactly one export job that
  carries the email of the requesting user, the request payload as received and the
  workspace slug, and returns status 200 with the acknowledgement that names this email.
  Nothing else of the world changes: no query over the issues is evaluated and nothing is
  reported.
\<close>

theorem export_enqueues_one_job:
  assumes "falsy (dict_get (data request) ''x_axis'' (PyBool False)) = False"
    and "falsy (dict_get (data request) ''y_axis'' (PyBool False)) = False"
    and "broker_fault w = None"
  shows "(ExportAnalyticsEndpoint_post request slug w :: 'd response \<times> world) =
           (Response (Message (''Once the export is ready it will be emailed to you at '' @
                               user_email request)) HTTP_200_OK,
            w\<lparr>task_queue := task_queue w @
                 [\<lparr>job_email = user_email request, job_data = data request, job_slug = slug\<rparr>]\<rparr>) \<and>
         issue_reads (snd (ExportAnalyticsEndpoint_post request slug w :: 'd response \<times> world)) =
           issue_reads w"
  using assms
  by (simp add: ExportAnalyticsEndpoint_post_def ExportAnalyticsEndpoint_try_def delay_def)

theorem export_enqueues_one_job_witness:
  "(ExportAnalyticsEndpoint_post request_by_state ''acme'' sample_world :: unit response \<times> world) =
     (Response (Message ''Once the export is ready it will be emailed to you at ann@example.com'')
        HTTP_200_OK,
      sample_world\<lparr>task_queue :=
        [\<lparr>job_email = ''ann@example.com'', job_data = data request_by_state,
          job_slug = ''acme''\<rparr>]\<rparr>) \<and>
   issue_reads (snd (ExportAnalyticsEndpoint_post request_by_state ''acme'' sample_world
      :: unit response \<times> world)) = 0"
proof -
  have x: "falsy (dict_get (data request_by_state) ''x_axis'' (PyBool False)) = False"
    and y: "falsy (dict_get (data request_by_state) ''y_axis'' (PyBool False)) = False"
    by (simp_all add: dict_get_def request_by_state_def)
  have b: "broker_fault sample_world = None"
    by (simp add: sample_world_def)
  from export_enqueues_one_job [OF x y b, of "''acme''"]
  have "(ExportAnalyticsEndpoint_post request_by_state ''acme'' sample_world
          :: unit response \<times> world) =
     (Response (Message (''Once the export is ready it will be emailed to you at '' @
                               user_email request_by_state)) HTTP_200_OK,
      sample_world\<lparr>task_queue := task_queue sample_world @
        [\<lparr>job_email = user_email request_by_state, job_data = data request_by_state,
          job_slug = ''acme''\<rparr>]\<rparr>)"
    and "issue_reads (snd (ExportAnalyticsEndpoint_post request_by_state ''acme'' sample_world
          :: unit response \<times> world)) = issue_reads sample_world"
    by blast+
  moreover have "user_email request_by_state = ''ann@example.com''"
    by (simp add: request_by_state_def)
  moreover have "task_queue sample_world = []" "issue_reads sample_world = 0"
    by (simp_all add: sample_world_def)
  ultimately show ?thesis
    by simp
qed

text \<open>
  Claim C9. In every successful response of DefaultAnalyticsEndpoint the rows of
  \<open>most_issue_created_user\<close> are in descending order of \<open>record_count\<close>: of any two
  rows the earlier has the greater or equal count, in particular of any two adjacent rows.
  There is one row for every creator email of the queryset, and its count is the number
  of rows of the queryset created by that user.
\<close>

theorem most_issue_created_user_descending:
  assumes "(DefaultAnalyticsEndpoint_get request slug w :: 'd response \<times> world) =
             (Response (DefaultAnalytics total_issues open_issues monthly creators) st, w')"
  shows "sorted_wrt (\<lambda>a b. snd b \<le> snd a) creators \<and>
         (\<forall>k. Suc k < length creators \<longrightarrow> snd (creators ! Suc k) \<le> snd (creators ! k)) \<and>
         distinct (map fst creators) \<and>
         (\<forall>a n. (a, n) \<in> set creators \<longleftrightarrow>
            a \<in> set (creator_emails (request_queryset request slug w)) \<and>
            n = length (filter (\<lambda>i. map_option email (created_by i) = Some a)
                          (request_queryset request slug w)))"
proof -
  let ?qs = "request_queryset request slug w"
  have c: "creators = order_by_record_count_desc (group_count (creator_emails ?qs))"
    by (rule DefaultAnalyticsEndpoint_success(4) [OF assms])
  have s: "sorted_wrt (\<lambda>a b. snd b \<le> snd a) creators"
    unfolding c by (rule order_by_record_count_desc_sorted)
  have adj: "\<forall>k. Suc k < length creators \<longrightarrow> snd (creators ! Suc k) \<le> snd (creators ! k)"
    using s by (simp add: sorted_wrt_iff_nth_less)
  have d: "distinct (map fst creators)"
    unfolding c order_by_record_count_desc_def by (rule distinct_keys_sort_key_group_count)
  have r: "\<forall>a n. (a, n) \<in> set creators \<longleftrightarrow>
            a \<in> set (creator_emails ?qs) \<and>
            n = length (filter (\<lambda>i. map_option email (created_by i) = Some a) ?qs)"
    unfolding c order_by_record_count_desc_def
    by (simp add: group_count_row count_creator_emails)
  from s adj d r show ?thesis by blast
qed

theorem most_issue_created_user_descending_witness:
  "(DefaultAnalyticsEndpoint_get request_by_state ''acme''
      (sample_world\<lparr>issue_reads := 7\<rparr>) :: unit response \<times> world) =
     (Response (DefaultAnalytics 4 2
        [(TruncMonth jan_10, 1), (TruncMonth mar_15, 2)]
        [(''ann@example.com'', 3), (''bob@example.com'', 1)]) HTTP_200_OK,
      sample_world\<lparr>issue_reads := 9\<rparr>) \<and>
   sorted_wrt (\<lambda>a b. snd b \<le> snd a) [(''ann@example.com'', 3::nat), (''bob@example.com'', 1)] \<and>
   distinct (map fst [(''ann@example.com'', 3::nat), (''bob@example.com'', 1)])"
proof -
  have h: "(DefaultAnalyticsEndpoint_get request_by_state ''acme''
      (sample_world\<lparr>issue_reads := 7\<rparr>) :: unit response \<times> world) =
     (Response (DefaultAnalytics 4 2
        [(TruncMonth jan_10, 1), (TruncMonth mar_15, 2)]
        [(''ann@example.com'', 3), (''bob@example.com'', 1)]) HTTP_200_OK,
      sample_world\<lparr>issue_reads := 9\<rparr>)"
    by (simp add: DefaultAnalyticsEndpoint_get_def DefaultAnalyticsEndpoint_try_def
        eval_defs sample_defs)
  from most_issue_created_user_descending [OF h] h show ?thesis
    by blast
qed

text \<open>
  Claim C10. In every successful response of DefaultAnalyticsEndpoint,
  \<open>issue_completed_month_wise\<close> has one row for every calendar month in which a row of
  the queryset was completed and none for any other month; the rows are in ascending
  order of the month; the count of a row is the number of rows of the queryset completed
  in that month; the counts add up to the number of rows with a completion timestamp, so
  a row without one is in no bucket.
\<close>

theorem issue_completed_month_wise_buckets:
  assumes "(DefaultAnalyticsEndpoint_get request slug w :: 'd response \<times> world) =
             (Response (DefaultAnalytics total_issues open_issues monthly creators) st, w')"
  shows "sorted (map (\<lambda>r. datetime_key (fst r)) monthly) \<and>
         distinct (map fst monthly) \<and>
         set (map fst monthly) =
           {TruncMonth t | t i. i \<in> set (request_queryset request slug w) \<and>
                                 completed_at i = Some t} \<and>
         (\<forall>m c. (m, c) \<in> set monthly \<longleftrightarrow>
            m \<in> set (completed_months (request_queryset request slug w)) \<and>
            c = length (filter (\<lambda>i. map_option TruncMonth (completed_at i) = Some m)
                          (request_queryset request slug w))) \<and>
         sum_list (map snd monthly) =
           length (filter (\<lambda>i. completed_at i \<noteq> None) (request_queryset request slug w))"
proof -
  let ?qs = "request_queryset request slug w"
  have m: "monthly = order_by_month (group_count (completed_months ?qs))"
    by (rule DefaultAnalyticsEndpoint_success(3) [OF assms])
  have s: "sorted (map (\<lambda>r. datetime_key (fst r)) monthly)"
    unfolding m order_by_month_def by (rule sorted_sort_key)
  have d: "distinct (map fst monthly)"
    unfolding m order_by_month_def by (rule distinct_keys_sort_key_group_count)
  have r: "\<forall>m c. (m, c) \<in> set monthly \<longleftrightarrow>
            m \<in> set (completed_months ?qs) \<and>
            c = length (filter (\<lambda>i. map_option TruncMonth (completed_at i) = Some m) ?qs)"
    unfolding m order_by_month_def
    by (simp add: group_count_row count_completed_months)
  have "set (map fst monthly) = set (map fst (group_count (completed_months ?qs)))"
    unfolding m order_by_month_def by simp
  also have "\<dots> = set (completed_months ?qs)"
    by (simp only: group_count_keys set_remdups)
  finally have k: "set (map fst monthly) =
      {TruncMonth t | t i. i \<in> set ?qs \<and> completed_at i = Some t}"
    by (simp only: set_completed_months)
  have t: "sum_list (map snd monthly) = length (filter (\<lambda>i. completed_at i \<noteq> None) ?qs)"
    unfolding m order_by_month_def
    by (simp add: sum_list_sort_key sum_group_count length_completed_months)
  from s d k r t show ?thesis by blast
qed

theorem issue_completed_month_wise_buckets_witness:
  "(DefaultAnalyticsEndpoint_get request_by_state ''acme''
      (sample_world\<lparr>issue_reads := 1\<rparr>) :: unit response \<times> world) =
     (Response (DefaultAnalytics 4 2
        [(TruncMonth jan_10, 1), (TruncMonth mar_15, 2)]
        [(''ann@example.com'', 3), (''bob@example.com'', 1)]) HTTP_200_OK,
      sample_world\<lparr>issue_reads := 3\<rparr>) \<and>
   sorted (map (\<lambda>r. datetime_key (fst r)) [(TruncMonth jan_10, 1::nat), (TruncMonth mar_15, 2)]) \<and>
   distinct (map fst [(TruncMonth jan_10, 1::nat), (TruncMonth mar_15, 2)]) \<and>
   sum_list (map snd [(TruncMonth jan_10, 1::nat), (TruncMonth mar_15, 2)]) =
     length (filter (\<lambda>i. completed_at i \<noteq> None)
       (request_queryset request_by_state ''acme'' (sample_world\<lparr>issue_reads := 1\<rparr>)))"
proof -
  have h: "(DefaultAnalyticsEndpoint_get request_by_state ''acme''
      (sample_world\<lparr>issue_reads := 1\<rparr>) :: unit response \<times> world) =
     (Response (DefaultAnalytics 4 2
        [(TruncMonth jan_10, 1), (TruncMonth mar_15, 2)]
        [(''ann@example.com'', 3), (''bob@example.com'', 1)]) HTTP_200_OK,
      sample_world\<lparr>issue_reads := 3\<rparr>)"
    by (simp add: DefaultAnalyticsEndpoint_get_def DefaultAnalyticsEndpoint_try_def
        eval_defs sample_defs)
  from issue_completed_month_wise_buckets [OF h] h show ?thesis
    by blast
qed

end
